theory Spec2Isabelle
  imports Main "HOL-Library.Sublist" "HOL-Library.Word"
begin

section \<open>Field schemas (data/formData.ts)\<close>

text \<open>
  A field descriptor is an object literal with the properties \<open>key\<close>, \<open>label\<close> and the
  optional \<open>placeholder\<close> and \<open>type\<close> (\<open>'text' | 'email' | 'tel' | 'date' | 'textarea'\<close>,
  see \<open>FieldConfig\<close> in FormSection.tsx). An absent optional property is \<open>None\<close>.
\<close>

datatype inputType = TypeText | TypeEmail | TypeTel | TypeDate | TypeTextarea

record fieldType =
  key :: string
  label :: string
  placeholder :: "string option"
  type :: "inputType option"

definition GENERAL_INFORMATION :: "fieldType list" where
  "GENERAL_INFORMATION =
    [\<lparr>key = ''name'', label = ''Name'', placeholder = Some ''Enter Your Name'', type = None\<rparr>,
     \<lparr>key = ''email'', label = ''Email'', placeholder = Some ''Enter Your E-Mail'', type = None\<rparr>,
     \<lparr>key = ''phoneNumber'', label = ''Phone Number'',
      placeholder = Some ''Enter Your Phone Number'', type = Some TypeTel\<rparr>]"

definition EDUCATIONAL_EXPERIENCE :: "fieldType list" where
  "EDUCATIONAL_EXPERIENCE =
    [\<lparr>key = ''schoolName'', label = ''School Name'',
      placeholder = Some ''Enter School Name'', type = None\<rparr>,
     \<lparr>key = ''fieldOfStudy'', label = ''Field of Study'',
      placeholder = Some ''Enter Field of Study'', type = None\<rparr>,
     \<lparr>key = ''dateStarted'', label = ''Start Date'', placeholder = None, type = Some TypeDate\<rparr>,
     \<lparr>key = ''dateEnded'', label = ''End Date'', placeholder = None, type = Some TypeDate\<rparr>]"

definition PRACTICAL_EXPERIENCE :: "fieldType list" where
  "PRACTICAL_EXPERIENCE =
    [\<lparr>key = ''companyName'', label = ''Company Name'',
      placeholder = Some ''Enter Company Name'', type = None\<rparr>,
     \<lparr>key = ''positionTitle'', label = ''Title'',
      placeholder = Some ''Enter your title'', type = None\<rparr>,
     \<lparr>key = ''responsibilities'', label = ''Responsibilities'',
      placeholder = Some ''List Responsibilites'', type = Some TypeTextarea\<rparr>,
     \<lparr>key = ''dateStarted'', label = ''Start Date'', placeholder = None, type = Some TypeDate\<rparr>,
     \<lparr>key = ''dateEnded'', label = ''End Date'', placeholder = None, type = Some TypeDate\<rparr>]"

section \<open>Form records (\<open>FormValues\<close>)\<close>

text \<open>
  A form record is a JavaScript object whose property values have type \<open>string | null\<close>.
  The object is a finite map from property names to values; a name outside its domain is
  a property the object does not have. Property names are ordinary names (the special
  name \<open>__proto__\<close> is outside the model).
\<close>

datatype fieldValue = Null | Text string

type_synonym formValues = "string \<rightharpoonup> fieldValue"

text \<open>\<open>pluck(arr, key)\<close> of utils/objects.ts, at the property \<open>'key'\<close> it is used with.\<close>

definition pluck_key :: "fieldType list \<Rightarrow> string list" where
  "pluck_key arr = map key arr"

text \<open>
  \<open>Object.fromEntries\<close> adds the entries in order to an empty object; a later entry
  overwrites an earlier one with the same name.
\<close>

definition fromEntries :: "(string \<times> fieldValue) list \<Rightarrow> formValues" where
  "fromEntries entries = foldl (\<lambda>obj (k, v). obj(k \<mapsto> v)) Map.empty entries"

text \<open>utils/arrays.ts: \<open>Object.fromEntries(keys.map((key) => [key, null]))\<close>.\<close>

definition createStateFromKeys :: "string list \<Rightarrow> formValues" where
  "createStateFromKeys keys = fromEntries (map (\<lambda>k. (k, Null)) keys)"

text \<open>
  The initial draft of a \<open>FormSection\<close>:
  \<open>fields.reduce((acc, field) => { acc[field.key] = null; return acc; }, {})\<close>.
  The assignment creates the property for every key but \<open>__proto__\<close>, for which it would
  set the prototype of \<open>acc\<close> instead; no registered schema has that key.
\<close>

definition initialDraftState :: "fieldType list \<Rightarrow> formValues" where
  "initialDraftState flds = foldl (\<lambda>acc field. acc(key field \<mapsto> Null)) Map.empty flds"

section \<open>Objects and state cells\<close>

text \<open>
  Form records are objects, held by reference. The store lists the objects in the order
  of their creation, and a reference is the position of its object. Evaluating an object
  literal creates a new object at the end of the store and writes to no other object.
\<close>

type_synonym ref = nat

type_synonym store = "formValues list"

definition newObject :: "formValues \<Rightarrow> store \<Rightarrow> ref \<times> store" where
  "newObject obj h = (length h, h @ [obj])"

text \<open>
  The object literal \<open>{ ...prev, [key]: value }\<close> of utils/state.ts and of
  \<open>handleInputChange\<close>: the own properties of the object \<open>prev\<close> are copied into the new
  object, then its property \<open>key\<close> is set to the string \<open>value\<close>.
\<close>

definition spreadWithField :: "ref \<Rightarrow> string \<Rightarrow> string \<Rightarrow> store \<Rightarrow> ref \<times> store" where
  "spreadWithField prev k v h = newObject ((h ! prev)(k \<mapsto> Text v)) h"

text \<open>
  utils/state.ts, \<open>createFieldUpdater(setter)\<close>: the returned \<open>updateField(key, value)\<close>
  calls \<open>setter((prev) => ({ ...prev, [key]: value }))\<close>. The setter of a state cell is
  given the function that computes the next state from the previous one.
\<close>

definition createFieldUpdater ::
    "((ref \<Rightarrow> store \<Rightarrow> ref \<times> store) \<Rightarrow> 's \<Rightarrow> 's) \<Rightarrow> string \<Rightarrow> string \<Rightarrow> 's \<Rightarrow> 's" where
  "createFieldUpdater setter k v = setter (\<lambda>prev. spreadWithField prev k v)"

section \<open>The \<open>FormSection\<close> component\<close>

text \<open>
  The state of a mounted \<open>FormSection\<close>: the store and the cell \<open>draftState\<close>, which holds
  the reference of the current draft record.
\<close>

record formSection =
  heap :: store
  draftState :: ref

text \<open>The record the cell currently refers to.\<close>

definition draft :: "formSection \<Rightarrow> formValues" where
  "draft s = heap s ! draftState s"

text \<open>Mounting: \<open>useState(fields.reduce(...))\<close> creates the blank draft.\<close>

definition FormSection :: "fieldType list \<Rightarrow> formSection" where
  "FormSection flds =
     (case newObject (initialDraftState flds) [] of (r, h) \<Rightarrow> \<lparr>heap = h, draftState = r\<rparr>)"

text \<open>\<open>setDraftState(f)\<close>: the cell is re-bound to the result of \<open>f(prev)\<close>.\<close>

definition setDraftState :: "(ref \<Rightarrow> store \<Rightarrow> ref \<times> store) \<Rightarrow> formSection \<Rightarrow> formSection" where
  "setDraftState f s =
     (case f (draftState s) (heap s) of (r, h) \<Rightarrow> s\<lparr>heap := h, draftState := r\<rparr>)"

text \<open>
  \<open>handleInputChange(e)\<close> with \<open>{ name, value } = e.target\<close>:
  \<open>setDraftState((prev) => ({ ...prev, [name]: value }))\<close>. There is no check of \<open>name\<close>
  against the field list and no \<open>throw\<close>.
\<close>

definition handleInputChange :: "string \<Rightarrow> string \<Rightarrow> formSection \<Rightarrow> formSection" where
  "handleInputChange name v = setDraftState (\<lambda>prev. spreadWithField prev name v)"

text \<open>
  \<open>handleButtonClick(e, fieldData)\<close>: \<open>e.preventDefault(); handleAddToCV(fieldData)\<close>, and the
  button's \<open>onClick={(e) => handleButtonClick(e, draftState)}\<close>. The record is handed over
  as it is. No function of the program writes to an object after its creation, so the
  receiver is given the record's contents.
\<close>

definition handleButtonClick :: "(formValues \<Rightarrow> 'a \<Rightarrow> 'a) \<Rightarrow> formValues \<Rightarrow> 'a \<Rightarrow> 'a" where
  "handleButtonClick handleAddToCV fieldData = handleAddToCV fieldData"

definition button_onClick :: "(formValues \<Rightarrow> 'a \<Rightarrow> 'a) \<Rightarrow> formSection \<Rightarrow> 'a \<Rightarrow> 'a" where
  "button_onClick handleAddToCV s = handleButtonClick handleAddToCV (draft s)"

text \<open>The value shown in the input of a field: \<open>draftState[field.key] ?? ''\<close>.\<close>

definition input_value :: "formSection \<Rightarrow> string \<Rightarrow> string" where
  "input_value s k = (case draft s k of Some (Text t) \<Rightarrow> t | _ \<Rightarrow> '''')"

section \<open>The \<open>App\<close> component\<close>

record CVData =
  generalInformation :: "formValues option"
  practicalExperience :: "formValues list"
  educationalExperience :: "formValues list"

record DraftData =
  generalDraft :: formValues
  practicalDraft :: formValues
  educationDraft :: formValues

record App =
  cvData :: CVData
  draftData :: DraftData
  isActive :: bool

text \<open>The initial values of the three \<open>useState\<close> cells.\<close>

definition App_init :: App where
  "App_init =
    \<lparr>cvData = \<lparr>generalInformation = None, practicalExperience = [], educationalExperience = []\<rparr>,
     draftData =
       \<lparr>generalDraft = [''name'' \<mapsto> Null, ''email'' \<mapsto> Null, ''phoneNumber'' \<mapsto> Null],
        practicalDraft =
          [''companyName'' \<mapsto> Null, ''positionTitle'' \<mapsto> Null, ''responsibilities'' \<mapsto> Null,
           ''dateStarted'' \<mapsto> Null, ''dateEnded'' \<mapsto> Null],
        educationDraft =
          [''schoolName'' \<mapsto> Null, ''fieldOfStudy'' \<mapsto> Null, ''dateStarted'' \<mapsto> Null,
           ''dateEnded'' \<mapsto> Null]\<rparr>,
     isActive = False\<rparr>"

definition setCvData :: "(CVData \<Rightarrow> CVData) \<Rightarrow> App \<Rightarrow> App" where
  "setCvData f s = s\<lparr>cvData := f (cvData s)\<rparr>"

definition setDraftData :: "(DraftData \<Rightarrow> DraftData) \<Rightarrow> App \<Rightarrow> App" where
  "setDraftData f s = s\<lparr>draftData := f (draftData s)\<rparr>"

definition setIsActive :: "(bool \<Rightarrow> bool) \<Rightarrow> App \<Rightarrow> App" where
  "setIsActive f s = s\<lparr>isActive := f (isActive s)\<rparr>"

definition updateGeneralDraft :: "formValues \<Rightarrow> App \<Rightarrow> App" where
  "updateGeneralDraft generalDraftData =
     setDraftData (\<lambda>prev. prev\<lparr>generalDraft := generalDraftData\<rparr>)"

definition updatePracticalDraft :: "formValues \<Rightarrow> App \<Rightarrow> App" where
  "updatePracticalDraft practicalDraftData =
     setDraftData (\<lambda>prev. prev\<lparr>practicalDraft := practicalDraftData\<rparr>)"

definition updateEducationalDraft :: "formValues \<Rightarrow> App \<Rightarrow> App" where
  "updateEducationalDraft educationalDraftData =
     setDraftData (\<lambda>prev. prev\<lparr>educationDraft := educationalDraftData\<rparr>)"

definition addGeneralInformation :: "formValues \<Rightarrow> App \<Rightarrow> App" where
  "addGeneralInformation fieldData =
     setCvData (\<lambda>prev. prev\<lparr>generalInformation := Some fieldData\<rparr>)"

definition addPracticalExperience :: "formValues \<Rightarrow> App \<Rightarrow> App" where
  "addPracticalExperience fieldData =
     setCvData (\<lambda>prev. prev\<lparr>practicalExperience := practicalExperience prev @ [fieldData]\<rparr>)"

definition addEducationalExperience :: "formValues \<Rightarrow> App \<Rightarrow> App" where
  "addEducationalExperience fieldData =
     setCvData (\<lambda>prev. prev\<lparr>educationalExperience := educationalExperience prev @ [fieldData]\<rparr>)"

text \<open>\<open>toggleProps.onClick\<close>: \<open>() => setIsActive(prev => !prev)\<close>.\<close>

definition toggleProps_onClick :: "App \<Rightarrow> App" where
  "toggleProps_onClick = setIsActive (\<lambda>prev. \<not> prev)"

text \<open>
  The handlers \<open>App\<close> hands to its children are the only code that writes to its state:
  an operation on the application is a call of one of them.
\<close>

datatype event =
    UpdateGeneralDraft formValues
  | UpdatePracticalDraft formValues
  | UpdateEducationalDraft formValues
  | AddGeneralInformation formValues
  | AddPracticalExperience formValues
  | AddEducationalExperience formValues
  | ToggleClick

fun dispatch :: "event \<Rightarrow> App \<Rightarrow> App" where
  "dispatch (UpdateGeneralDraft d) = updateGeneralDraft d"
| "dispatch (UpdatePracticalDraft d) = updatePracticalDraft d"
| "dispatch (UpdateEducationalDraft d) = updateEducationalDraft d"
| "dispatch (AddGeneralInformation d) = addGeneralInformation d"
| "dispatch (AddPracticalExperience d) = addPracticalExperience d"
| "dispatch (AddEducationalExperience d) = addEducationalExperience d"
| "dispatch ToggleClick = toggleProps_onClick"

text \<open>Events are handled one at a time, in the order of their dispatch.\<close>

fun run :: "event list \<Rightarrow> App \<Rightarrow> App" where
  "run [] s = s"
| "run (e # es) s = run es (dispatch e s)"

subsection \<open>The side panel\<close>

text \<open>
  \<open>clsx\<close> joins its truthy arguments with a space; \<open>false\<close> (here \<open>None\<close>) and the empty
  string are left out.
\<close>

fun clsx :: "string option list \<Rightarrow> string" where
  "clsx [] = ''''"
| "clsx (None # rest) = clsx rest"
| "clsx (Some c # rest) =
     (if c = '''' then clsx rest
      else if clsx rest = '''' then c else c @ '' '' @ clsx rest)"

text \<open>\<open>App\<close> renders \<open><Aside isOpen={isActive} ... />\<close>.\<close>

definition Aside_isOpen :: "App \<Rightarrow> bool" where
  "Aside_isOpen s = isActive s"

text \<open>\<open>className={clsx(!isOpen && 'closed')}\<close>, and in the other variant \<open>aria-hidden={!isOpen}\<close>.\<close>

definition Aside_className :: "bool \<Rightarrow> string" where
  "Aside_className isOpen = clsx [if \<not> isOpen then Some ''closed'' else None]"

definition Aside_ariaHidden :: "bool \<Rightarrow> bool" where
  "Aside_ariaHidden isOpen = (\<not> isOpen)"

section \<open>Text formatting (library/utilities/text-formatting.ts)\<close>

text \<open>
  A JavaScript string is a sequence of 16-bit code units. A string literal of this
  theory stands for the code units of its ASCII characters.
\<close>

type_synonym codeUnit = "16 word"

type_synonym jsString = "codeUnit list"


text \<open>
  The classes \<open>[A-Z]\<close> and \<open>[a-z0-9]\<close> of the regular expression, which has neither the
  \<open>u\<close> nor the \<open>i\<close> flag: ranges of code units.
\<close>

definition upperAZ :: "codeUnit \<Rightarrow> bool" where
  "upperAZ c = (0x41 \<le> c \<and> c \<le> 0x5A)"

definition lowerOrDigit :: "codeUnit \<Rightarrow> bool" where
  "lowerOrDigit c = ((0x61 \<le> c \<and> c \<le> 0x7A) \<or> (0x30 \<le> c \<and> c \<le> 0x39))"





text \<open>
  The wording of the claim on hyphens, position by position: a capital of \<open>[A-Z]\<close> whose
  predecessor is a lower-case letter or a digit (an interior capital of a camelCase key)
  gets a hyphen in front of it; nothing else is changed.
\<close>

definition hyphen_before :: "codeUnit option \<Rightarrow> codeUnit \<Rightarrow> jsString" where
  "hyphen_before prev c =
     (if upperAZ c \<and> (case prev of Some p \<Rightarrow> lowerOrDigit p | None \<Rightarrow> False)
      then [0x2D, c] else [c])"


section \<open>Blank records\<close>

lemma fromEntries_null_from:
  "foldl (\<lambda>obj (k, v). obj(k \<mapsto> v)) m (map (\<lambda>k. (k, Null)) keys)
     = (\<lambda>k. if k \<in> set keys then Some Null else m k)"
  by (induction keys arbitrary: m) (auto simp: fun_eq_iff)

lemma createStateFromKeys_eq:
  "createStateFromKeys keys = (\<lambda>k. if k \<in> set keys then Some Null else None)"
  by (simp add: createStateFromKeys_def fromEntries_def fromEntries_null_from)

lemma reduce_null_from:
  "foldl (\<lambda>acc field. acc(key field \<mapsto> Null)) m flds
     = (\<lambda>k. if k \<in> key ` set flds then Some Null else m k)"
  by (induction flds arbitrary: m) (auto simp: fun_eq_iff)

lemma initialDraftState_eq:
  "initialDraftState flds = (\<lambda>k. if k \<in> key ` set flds then Some Null else None)"
  by (simp add: initialDraftState_def reduce_null_from)

lemma initialDraftState_createStateFromKeys:
  "initialDraftState flds = createStateFromKeys (pluck_key flds)"
  by (simp add: initialDraftState_eq createStateFromKeys_eq pluck_key_def)

lemma dom_initialDraftState: "dom (initialDraftState flds) = key ` set flds"
  by (auto simp: initialDraftState_eq split: if_splits)

text \<open>
  Claim C2. For every field list \<open>S\<close> (so for each of the three registered ones), the
  blank record built by \<open>createStateFromKeys\<close> from the keys of \<open>S\<close>, and the one built by
  the \<open>FormSection\<close> initializer, has exactly the keys of \<open>S\<close> as its properties, and each
  of them holds \<open>null\<close>, which is not the empty string.
\<close>

theorem blank_record_keys_all_null:
  "dom (createStateFromKeys (pluck_key S)) = set (pluck_key S) \<and>
   dom (initialDraftState S) = set (pluck_key S) \<and>
   (\<forall>k \<in> set (pluck_key S).
      createStateFromKeys (pluck_key S) k = Some Null \<and>
      initialDraftState S k = Some Null \<and>
      initialDraftState S k \<noteq> Some (Text ''''))"
  by (auto simp: createStateFromKeys_eq initialDraftState_eq pluck_key_def split: if_splits)

theorem blank_record_keys_all_null_witness:
  "dom (initialDraftState GENERAL_INFORMATION) = {''name'', ''email'', ''phoneNumber''} \<and>
   dom (createStateFromKeys (pluck_key GENERAL_INFORMATION)) = {''name'', ''email'', ''phoneNumber''} \<and>
   ''email'' \<in> set (pluck_key GENERAL_INFORMATION) \<and>
   initialDraftState GENERAL_INFORMATION ''email'' = Some Null \<and>
   createStateFromKeys (pluck_key GENERAL_INFORMATION) ''email'' = Some Null"
  using blank_record_keys_all_null [of GENERAL_INFORMATION]
  by (simp add: GENERAL_INFORMATION_def pluck_key_def)

section \<open>Field updates\<close>

lemma heap_handleInputChange:
  "heap (handleInputChange k v s) = heap s @ [(draft s)(k \<mapsto> Text v)]"
  by (simp add: handleInputChange_def setDraftState_def spreadWithField_def newObject_def
      draft_def)

lemma draftState_handleInputChange:
  "draftState (handleInputChange k v s) = length (heap s)"
  by (simp add: handleInputChange_def setDraftState_def spreadWithField_def newObject_def)

lemma draft_handleInputChange:
  "draft (handleInputChange k v s) = (draft s)(k \<mapsto> Text v)"
  by (simp add: draft_def [of "handleInputChange k v s"] heap_handleInputChange
      draftState_handleInputChange)

lemma handleInputChange_keeps_objects:
  "r < length (heap s) \<Longrightarrow> heap (handleInputChange k v s) ! r = heap s ! r"
  by (simp add: heap_handleInputChange nth_append)

lemma createFieldUpdater_setDraftState:
  "createFieldUpdater setDraftState k v = handleInputChange k v"
  by (simp add: createFieldUpdater_def handleInputChange_def)

lemma heap_FormSection: "heap (FormSection S) = [initialDraftState S]"
  by (simp add: FormSection_def newObject_def)

lemma draftState_FormSection: "draftState (FormSection S) = 0"
  by (simp add: FormSection_def newObject_def)

lemma draft_FormSection: "draft (FormSection S) = initialDraftState S"
  by (simp add: draft_def heap_FormSection draftState_FormSection)

lemma initialDraftState_GENERAL_INFORMATION:
  "initialDraftState GENERAL_INFORMATION =
     [''name'' \<mapsto> Null, ''email'' \<mapsto> Null, ''phoneNumber'' \<mapsto> Null]"
  by (simp add: initialDraftState_def GENERAL_INFORMATION_def)

lemma pluck_key_GENERAL_INFORMATION:
  "pluck_key GENERAL_INFORMATION = [''name'', ''email'', ''phoneNumber'']"
  by (simp add: pluck_key_def GENERAL_INFORMATION_def)

text \<open>
  Claim C3. Let the draft of a form section hold a record \<open>R\<close> whose keys are those of the
  schema \<open>S\<close>, and let \<open>k\<close> be a key of \<open>S\<close>. A field update with \<open>(k, v)\<close>, by
  \<open>handleInputChange\<close> as by the updater \<open>createFieldUpdater\<close> returns, re-binds the draft
  to a record that maps \<open>k\<close> to the string \<open>v\<close>, agrees with \<open>R\<close> on every other key and
  has the keys of \<open>S\<close>. The object \<open>R\<close> is still in the store with its old contents, as is
  every other object created before the call: the update writes to its new object only.
\<close>

theorem field_update_sets_one_key:
  assumes "draftState s < length (heap s)"
    and "dom (draft s) = set (pluck_key S)"
    and "k \<in> set (pluck_key S)"
  shows "draft (handleInputChange k v s) k = Some (Text v) \<and>
    (\<forall>k'. k' \<noteq> k \<longrightarrow> draft (handleInputChange k v s) k' = draft s k') \<and>
    dom (draft (handleInputChange k v s)) = set (pluck_key S) \<and>
    heap (handleInputChange k v s) ! draftState s = draft s \<and>
    (\<forall>r < length (heap s). heap (handleInputChange k v s) ! r = heap s ! r) \<and>
    createFieldUpdater setDraftState k v s = handleInputChange k v s"
proof (intro conjI)
  show "draft (handleInputChange k v s) k = Some (Text v)"
    by (simp add: draft_handleInputChange)
  show "\<forall>k'. k' \<noteq> k \<longrightarrow> draft (handleInputChange k v s) k' = draft s k'"
    by (simp add: draft_handleInputChange)
  show "dom (draft (handleInputChange k v s)) = set (pluck_key S)"
    using assms(2,3) by (auto simp: draft_handleInputChange)
  show "heap (handleInputChange k v s) ! draftState s = draft s"
    using assms(1) by (simp add: handleInputChange_keeps_objects draft_def)
  show "\<forall>r < length (heap s). heap (handleInputChange k v s) ! r = heap s ! r"
    by (simp add: handleInputChange_keeps_objects)
  show "createFieldUpdater setDraftState k v s = handleInputChange k v s"
    by (simp add: createFieldUpdater_setDraftState)
qed

theorem field_update_sets_one_key_witness:
  "draftState (FormSection GENERAL_INFORMATION) < length (heap (FormSection GENERAL_INFORMATION)) \<and>
   dom (draft (FormSection GENERAL_INFORMATION)) = set (pluck_key GENERAL_INFORMATION) \<and>
   ''email'' \<in> set (pluck_key GENERAL_INFORMATION) \<and>
   draft (handleInputChange ''email'' ''a@b.com'' (FormSection GENERAL_INFORMATION)) ''email''
     = Some (Text ''a@b.com'') \<and>
   draft (handleInputChange ''email'' ''a@b.com'' (FormSection GENERAL_INFORMATION)) ''name''
     = Some Null \<and>
   (heap (handleInputChange ''email'' ''a@b.com'' (FormSection GENERAL_INFORMATION)) ! 0) ''email''
     = Some Null"
proof -
  have h1: "draftState (FormSection GENERAL_INFORMATION)
      < length (heap (FormSection GENERAL_INFORMATION))"
    by (simp add: heap_FormSection draftState_FormSection)
  have h2: "dom (draft (FormSection GENERAL_INFORMATION)) = set (pluck_key GENERAL_INFORMATION)"
    by (simp add: draft_FormSection dom_initialDraftState pluck_key_def)
  have h3: "''email'' \<in> set (pluck_key GENERAL_INFORMATION)"
    by (simp add: pluck_key_GENERAL_INFORMATION)
  show ?thesis
    using h1 h2 h3 field_update_sets_one_key [OF h1 h2 h3, of "''a@b.com''"]
    by (simp add: draft_FormSection draftState_FormSection
        initialDraftState_GENERAL_INFORMATION)
qed

text \<open>
  Claim C1 says that an update under a key outside the schema fails with
  \<open>UnknownFieldKeyError\<close> and is never applied. Neither update path has a check or a
  \<open>throw\<close>. On the blank general-information record the update
  \<open>(''nonExistentKey'', ''x'')\<close> is applied, and the new draft has a key the schema does
  not declare.
\<close>

theorem unknown_key_update_counterexample:
  "''nonExistentKey'' \<notin> set (pluck_key GENERAL_INFORMATION) \<and>
   draft (handleInputChange ''nonExistentKey'' ''x'' (FormSection GENERAL_INFORMATION))
      ''nonExistentKey'' = Some (Text ''x'') \<and>
   ''nonExistentKey'' \<in> dom (draft (createFieldUpdater setDraftState ''nonExistentKey'' ''x''
      (FormSection GENERAL_INFORMATION)))"
  by (simp add: createFieldUpdater_setDraftState draft_handleInputChange draft_FormSection
      pluck_key_GENERAL_INFORMATION initialDraftState_GENERAL_INFORMATION)

text \<open>
  Claim C1, as amended. For a record \<open>R\<close> with the keys of the schema \<open>S\<close> and a key \<open>k\<close>
  that is not in \<open>S\<close>, the field update does not fail: the draft is re-bound to a record
  that maps \<open>k\<close> to \<open>v\<close>, agrees with \<open>R\<close> on every other key, and whose key set is that of
  \<open>S\<close> with \<open>k\<close> added. The object \<open>R\<close> itself is unchanged. (Keys outside the schema are
  ruled out by the parameter type \<open>keyof T\<close> of \<open>updateField\<close>, at compile time only.)
\<close>

theorem unknown_key_update_is_applied:
  assumes "draftState s < length (heap s)"
    and "dom (draft s) = set (pluck_key S)"
    and "k \<notin> set (pluck_key S)"
  shows "draft (handleInputChange k v s) k = Some (Text v) \<and>
    (\<forall>k'. k' \<noteq> k \<longrightarrow> draft (handleInputChange k v s) k' = draft s k') \<and>
    dom (draft (handleInputChange k v s)) = insert k (set (pluck_key S)) \<and>
    heap (handleInputChange k v s) ! draftState s = draft s \<and>
    createFieldUpdater setDraftState k v s = handleInputChange k v s"
proof (intro conjI)
  show "draft (handleInputChange k v s) k = Some (Text v)"
    by (simp add: draft_handleInputChange)
  show "\<forall>k'. k' \<noteq> k \<longrightarrow> draft (handleInputChange k v s) k' = draft s k'"
    by (simp add: draft_handleInputChange)
  show "dom (draft (handleInputChange k v s)) = insert k (set (pluck_key S))"
    using assms(2) by (simp add: draft_handleInputChange)
  show "heap (handleInputChange k v s) ! draftState s = draft s"
    using assms(1) by (simp add: handleInputChange_keeps_objects draft_def)
  show "createFieldUpdater setDraftState k v s = handleInputChange k v s"
    by (simp add: createFieldUpdater_setDraftState)
qed

theorem unknown_key_update_is_applied_witness:
  "draftState (FormSection GENERAL_INFORMATION) < length (heap (FormSection GENERAL_INFORMATION)) \<and>
   dom (draft (FormSection GENERAL_INFORMATION)) = set (pluck_key GENERAL_INFORMATION) \<and>
   ''nonExistentKey'' \<notin> set (pluck_key GENERAL_INFORMATION) \<and>
   dom (draft (handleInputChange ''nonExistentKey'' ''x'' (FormSection GENERAL_INFORMATION)))
     = {''nonExistentKey'', ''name'', ''email'', ''phoneNumber''} \<and>
   heap (handleInputChange ''nonExistentKey'' ''x'' (FormSection GENERAL_INFORMATION)) ! 0
     = [''name'' \<mapsto> Null, ''email'' \<mapsto> Null, ''phoneNumber'' \<mapsto> Null]"
proof -
  have h1: "draftState (FormSection GENERAL_INFORMATION)
      < length (heap (FormSection GENERAL_INFORMATION))"
    by (simp add: heap_FormSection draftState_FormSection)
  have h2: "dom (draft (FormSection GENERAL_INFORMATION)) = set (pluck_key GENERAL_INFORMATION)"
    by (simp add: draft_FormSection dom_initialDraftState pluck_key_def)
  have h3: "''nonExistentKey'' \<notin> set (pluck_key GENERAL_INFORMATION)"
    by (simp add: pluck_key_GENERAL_INFORMATION)
  show ?thesis
    using h1 h2 h3 unknown_key_update_is_applied [OF h1 h2 h3, of "''x''"]
    by (simp add: draft_FormSection draftState_FormSection pluck_key_GENERAL_INFORMATION
        initialDraftState_GENERAL_INFORMATION)
qed

text \<open>
  Claim C5. Applying the same update \<open>(k, v)\<close> twice in a row leaves the draft with the
  same record contents as applying it once. This holds for every key \<open>k\<close>, so for the keys
  of the record's schema.
\<close>

theorem field_update_idempotent:
  "draft (handleInputChange k v (handleInputChange k v s)) = draft (handleInputChange k v s) \<and>
   draft (createFieldUpdater setDraftState k v (createFieldUpdater setDraftState k v s))
     = draft (createFieldUpdater setDraftState k v s)"
  by (simp add: createFieldUpdater_setDraftState draft_handleInputChange)

section \<open>Submission and the CV collection\<close>

lemmas App_handler_defs =
  setCvData_def setDraftData_def setIsActive_def
  updateGeneralDraft_def updatePracticalDraft_def updateEducationalDraft_def
  addGeneralInformation_def addPracticalExperience_def addEducationalExperience_def
  toggleProps_onClick_def

lemma cvData_dispatch:
  "cvData (dispatch (UpdateGeneralDraft d) s) = cvData s"
  "cvData (dispatch (UpdatePracticalDraft d) s) = cvData s"
  "cvData (dispatch (UpdateEducationalDraft d) s) = cvData s"
  "cvData (dispatch ToggleClick s) = cvData s"
  "cvData (dispatch (AddGeneralInformation d) s) = (cvData s)\<lparr>generalInformation := Some d\<rparr>"
  "cvData (dispatch (AddPracticalExperience d) s) =
     (cvData s)\<lparr>practicalExperience := practicalExperience (cvData s) @ [d]\<rparr>"
  "cvData (dispatch (AddEducationalExperience d) s) =
     (cvData s)\<lparr>educationalExperience := educationalExperience (cvData s) @ [d]\<rparr>"
  by (simp_all add: App_handler_defs)

lemma dispatch_practical_prefix:
  "prefix (practicalExperience (cvData s)) (practicalExperience (cvData (dispatch e s)))"
  by (cases e) (simp_all add: App_handler_defs)

lemma dispatch_educational_prefix:
  "prefix (educationalExperience (cvData s)) (educationalExperience (cvData (dispatch e s)))"
  by (cases e) (simp_all add: App_handler_defs)

lemma dispatch_general_kept:
  "generalInformation (cvData s) \<noteq> None \<Longrightarrow> generalInformation (cvData (dispatch e s)) \<noteq> None"
  by (cases e) (simp_all add: App_handler_defs)

lemma run_practical_prefix:
  "prefix (practicalExperience (cvData s)) (practicalExperience (cvData (run es s)))"
proof (induction es arbitrary: s)
  case Nil
  show ?case by simp
next
  case (Cons e es)
  have "prefix (practicalExperience (cvData s)) (practicalExperience (cvData (dispatch e s)))"
    by (rule dispatch_practical_prefix)
  also have "prefix \<dots> (practicalExperience (cvData (run es (dispatch e s))))"
    by (rule Cons.IH)
  finally show ?case by simp
qed

lemma run_educational_prefix:
  "prefix (educationalExperience (cvData s)) (educationalExperience (cvData (run es s)))"
proof (induction es arbitrary: s)
  case Nil
  show ?case by simp
next
  case (Cons e es)
  have "prefix (educationalExperience (cvData s))
      (educationalExperience (cvData (dispatch e s)))"
    by (rule dispatch_educational_prefix)
  also have "prefix \<dots> (educationalExperience (cvData (run es (dispatch e s))))"
    by (rule Cons.IH)
  finally show ?case by simp
qed

lemma run_general_kept:
  "generalInformation (cvData s) \<noteq> None \<Longrightarrow> generalInformation (cvData (run es s)) \<noteq> None"
proof (induction es arbitrary: s)
  case Nil
  then show ?case by simp
next
  case (Cons e es)
  from Cons.IH [OF dispatch_general_kept [OF Cons.prems]] show ?case by simp
qed

text \<open>
  Claim C6. The CV collection starts with no general-information record and two empty
  lists. A handler either leaves it as it is, or replaces the general-information record,
  or appends one record at the end of one of the two lists. So after any sequence of
  events each list still begins with the entries it had, in their order (nothing is
  removed or reordered, no list gets shorter), and a general-information record, once
  there, is never taken away.
\<close>

theorem cvData_starts_empty_grows_only:
  "cvData App_init =
     \<lparr>generalInformation = None, practicalExperience = [], educationalExperience = []\<rparr> \<and>
   cvData (dispatch (UpdateGeneralDraft d) s) = cvData s \<and>
   cvData (dispatch (UpdatePracticalDraft d) s) = cvData s \<and>
   cvData (dispatch (UpdateEducationalDraft d) s) = cvData s \<and>
   cvData (dispatch ToggleClick s) = cvData s \<and>
   cvData (dispatch (AddGeneralInformation d) s) = (cvData s)\<lparr>generalInformation := Some d\<rparr> \<and>
   cvData (dispatch (AddPracticalExperience d) s) =
     (cvData s)\<lparr>practicalExperience := practicalExperience (cvData s) @ [d]\<rparr> \<and>
   cvData (dispatch (AddEducationalExperience d) s) =
     (cvData s)\<lparr>educationalExperience := educationalExperience (cvData s) @ [d]\<rparr> \<and>
   prefix (practicalExperience (cvData s)) (practicalExperience (cvData (run es s))) \<and>
   prefix (educationalExperience (cvData s)) (educationalExperience (cvData (run es s))) \<and>
   (generalInformation (cvData s) \<noteq> None \<longrightarrow> generalInformation (cvData (run es s)) \<noteq> None)"
proof -
  have "cvData App_init =
     \<lparr>generalInformation = None, practicalExperience = [], educationalExperience = []\<rparr>"
    by (simp add: App_init_def)
  moreover have "generalInformation (cvData s) \<noteq> None \<longrightarrow>
      generalInformation (cvData (run es s)) \<noteq> None"
    using run_general_kept by blast
  ultimately show ?thesis
    by (simp only: cvData_dispatch run_practical_prefix run_educational_prefix simp_thms)
qed

theorem cvData_starts_empty_grows_only_witness:
  "generalInformation (cvData (dispatch (AddGeneralInformation Map.empty) App_init)) \<noteq> None \<and>
   generalInformation (cvData (run [AddPracticalExperience Map.empty, ToggleClick]
     (dispatch (AddGeneralInformation Map.empty) App_init))) \<noteq> None \<and>
   practicalExperience (cvData (run [AddPracticalExperience Map.empty, ToggleClick]
     (dispatch (AddGeneralInformation Map.empty) App_init))) = [Map.empty]"
proof -
  have h: "generalInformation (cvData (dispatch (AddGeneralInformation Map.empty) App_init))
      \<noteq> None"
    by (simp add: addGeneralInformation_def setCvData_def)
  have p: "practicalExperience (cvData (run [AddPracticalExperience Map.empty, ToggleClick]
     (dispatch (AddGeneralInformation Map.empty) App_init))) = [Map.empty]"
    by (simp add: App_handler_defs App_init_def)
  show ?thesis
    using h p cvData_starts_empty_grows_only
      [of _ "dispatch (AddGeneralInformation Map.empty) App_init"
          "[AddPracticalExperience Map.empty, ToggleClick]"]
    by blast
qed

text \<open>
  Claim C8. Each of the three submission handlers writes to its own part of the CV
  collection only: the other two parts, the drafts and the panel state are unchanged.
\<close>

theorem add_handlers_frame:
  "generalInformation (cvData (addEducationalExperience d s)) = generalInformation (cvData s) \<and>
   practicalExperience (cvData (addEducationalExperience d s)) = practicalExperience (cvData s) \<and>
   generalInformation (cvData (addPracticalExperience d s)) = generalInformation (cvData s) \<and>
   educationalExperience (cvData (addPracticalExperience d s))
     = educationalExperience (cvData s) \<and>
   practicalExperience (cvData (addGeneralInformation d s)) = practicalExperience (cvData s) \<and>
   educationalExperience (cvData (addGeneralInformation d s))
     = educationalExperience (cvData s) \<and>
   draftData (addEducationalExperience d s) = draftData s \<and>
   draftData (addPracticalExperience d s) = draftData s \<and>
   draftData (addGeneralInformation d s) = draftData s \<and>
   isActive (addEducationalExperience d s) = isActive s \<and>
   isActive (addPracticalExperience d s) = isActive s \<and>
   isActive (addGeneralInformation d s) = isActive s"
  by (simp add: addGeneralInformation_def addPracticalExperience_def
      addEducationalExperience_def setCvData_def)

text \<open>
  Claim C10. A click on the toggle negates \<open>isActive\<close>, two clicks give the state back,
  and the side panel is rendered from the current value: it has the class \<open>closed\<close> (in
  the other variant, \<open>aria-hidden\<close>) exactly when \<open>isActive\<close> is false.
\<close>

theorem toggle_involution:
  "toggleProps_onClick (toggleProps_onClick s) = s \<and>
   isActive (toggleProps_onClick s) = (\<not> isActive s) \<and>
   Aside_isOpen s = isActive s \<and>
   (Aside_className (Aside_isOpen s) = ''closed'') = (\<not> isActive s) \<and>
   (Aside_className (Aside_isOpen s) = '''') = isActive s \<and>
   Aside_ariaHidden (Aside_isOpen s) = (\<not> isActive s)"
  by (simp add: toggleProps_onClick_def setIsActive_def Aside_isOpen_def Aside_className_def
      Aside_ariaHidden_def)

text \<open>
  Claim C4 says that submitting a blank record yields a record whose values are all the
  empty string. Clicking Add on a freshly mounted general-information section stores the
  blank draft itself: every value of the submitted record is \<open>null\<close>.
\<close>

theorem submit_blank_counterexample:
  "generalInformation (cvData (button_onClick addGeneralInformation
      (FormSection GENERAL_INFORMATION) App_init))
     = Some [''name'' \<mapsto> Null, ''email'' \<mapsto> Null, ''phoneNumber'' \<mapsto> Null] \<and>
   [''name'' \<mapsto> Null, ''email'' \<mapsto> Null, ''phoneNumber'' \<mapsto> Null] ''name'' \<noteq> Some (Text '''')"
  by (simp add: button_onClick_def handleButtonClick_def addGeneralInformation_def
      setCvData_def draft_FormSection initialDraftState_GENERAL_INFORMATION)

lemma ran_initialDraftState: "flds \<noteq> [] \<Longrightarrow> ran (initialDraftState flds) = {Null}"
  by (cases flds) (auto simp: initialDraftState_eq ran_def)

lemma registered_nonempty:
  "S \<in> {GENERAL_INFORMATION, EDUCATIONAL_EXPERIENCE, PRACTICAL_EXPERIENCE} \<Longrightarrow> S \<noteq> []"
  by (auto simp: GENERAL_INFORMATION_def EDUCATIONAL_EXPERIENCE_def PRACTICAL_EXPERIENCE_def)

text \<open>
  Claim C4, as amended. For every registered section schema \<open>S\<close>, submitting the blank
  record of \<open>S\<close> yields a record in which every value is the unset marker \<open>null\<close> and no
  value is the empty string. In general, submission copies every key of the draft with
  the value the draft has for it: the record stored (general information) or appended
  (practical, educational experience) is the draft record as it is.
\<close>

theorem submit_hands_draft_over:
  "button_onClick addGeneralInformation f a
     = a\<lparr>cvData := (cvData a)\<lparr>generalInformation := Some (draft f)\<rparr>\<rparr> \<and>
   button_onClick addPracticalExperience f a
     = a\<lparr>cvData := (cvData a)\<lparr>practicalExperience :=
          practicalExperience (cvData a) @ [draft f]\<rparr>\<rparr> \<and>
   button_onClick addEducationalExperience f a
     = a\<lparr>cvData := (cvData a)\<lparr>educationalExperience :=
          educationalExperience (cvData a) @ [draft f]\<rparr>\<rparr> \<and>
   (S \<in> {GENERAL_INFORMATION, EDUCATIONAL_EXPERIENCE, PRACTICAL_EXPERIENCE} \<longrightarrow>
      ran (draft (FormSection S)) = {Null} \<and> Text '''' \<notin> ran (draft (FormSection S)))"
proof (intro conjI impI)
  assume "S \<in> {GENERAL_INFORMATION, EDUCATIONAL_EXPERIENCE, PRACTICAL_EXPERIENCE}"
  then have "S \<noteq> []" by (rule registered_nonempty)
  then show r: "ran (draft (FormSection S)) = {Null}"
    by (simp add: draft_FormSection ran_initialDraftState)
  show "Text '''' \<notin> ran (draft (FormSection S))"
    by (simp add: r)
qed (simp_all add: button_onClick_def handleButtonClick_def addGeneralInformation_def
    addPracticalExperience_def addEducationalExperience_def setCvData_def)

theorem submit_hands_draft_over_witness:
  "GENERAL_INFORMATION \<in> {GENERAL_INFORMATION, EDUCATIONAL_EXPERIENCE, PRACTICAL_EXPERIENCE} \<and>
   ran (draft (FormSection GENERAL_INFORMATION)) = {Null} \<and>
   generalInformation (cvData (button_onClick addGeneralInformation
      (FormSection GENERAL_INFORMATION) App_init)) = Some (draft (FormSection GENERAL_INFORMATION))"
proof -
  note t = submit_hands_draft_over [of "FormSection GENERAL_INFORMATION" App_init
      GENERAL_INFORMATION]
  have h: "GENERAL_INFORMATION \<in> {GENERAL_INFORMATION, EDUCATIONAL_EXPERIENCE, PRACTICAL_EXPERIENCE}"
    by simp
  from t h have v: "ran (draft (FormSection GENERAL_INFORMATION)) = {Null}"
    by blast
  from t have "button_onClick addGeneralInformation (FormSection GENERAL_INFORMATION) App_init
     = App_init\<lparr>cvData := (cvData App_init)\<lparr>generalInformation :=
         Some (draft (FormSection GENERAL_INFORMATION))\<rparr>\<rparr>"
    by (rule conjunct1)
  then have g: "generalInformation (cvData (button_onClick addGeneralInformation
      (FormSection GENERAL_INFORMATION) App_init)) = Some (draft (FormSection GENERAL_INFORMATION))"
    by simp
  from h v g show ?thesis by (intro conjI)
qed

section \<open>\<open>camelToKebab\<close>\<close>





text \<open>The hyphens of the scan, from a position with predecessor \<open>prev\<close>.\<close>

lemma hyphenate_from_Cons:
  "concat (map (\<lambda>(prev, c). hyphen_before prev c) (zip (p # map Some (c # str)) (c # str)))
     = hyphen_before p c @
       concat (map (\<lambda>(prev, c). hyphen_before prev c) (zip (Some c # map Some str) str))"
  by simp











end
